theory Spec2Isabelle
  imports Complex_Main "HOL-Library.AList"
begin

section \<open>Values, errors and tables\<close>

text \<open>
  The pipeline of \<^verbatim>\<open>model.py\<close> works on pandas tables and numpy arrays. A numeric cell is
  a float: a finite number (taken as an exact real), or one of the three special values
  that numpy's arithmetic produces instead of raising. A cell of a table is numeric or text.
\<close>

datatype np_float = Fin real | NaN | PosInf | NegInf

datatype cell = Num np_float | Str string

datatype error =
    KeyError "string list"
  | ValueError string
  | IndexError string
  | TypeError string
  | NotFittedError
  | LibraryError string

type_synonym series = "cell list"

type_synonym matrix = "real list list"

record dataframe =
  nrows :: nat
  cols :: "(string \<times> series) list"

text \<open>Sequencing of steps that may raise: the first error is the result.\<close>

definition bind_err :: "error + 'a \<Rightarrow> ('a \<Rightarrow> error + 'b) \<Rightarrow> error + 'b" where
  "bind_err r f = (case r of Inl e \<Rightarrow> Inl e | Inr x \<Rightarrow> f x)"

subsection \<open>numpy arithmetic on floats\<close>

text \<open>
  Array division does not raise on a zero divisor: \<open>0 / 0\<close> is \<open>NaN\<close> and \<open>x / 0\<close> is an
  infinity with the sign of \<open>x\<close>.
\<close>

definition np_div :: "real \<Rightarrow> real \<Rightarrow> np_float" where
  "np_div x y =
     (if y \<noteq> 0 then Fin (x / y)
      else if x = 0 then NaN
      else if x > 0 then PosInf else NegInf)"

fun np_rsub :: "real \<Rightarrow> np_float \<Rightarrow> np_float" where
  "np_rsub r (Fin x) = Fin (r - x)"
| "np_rsub r NaN = NaN"
| "np_rsub r PosInf = NegInf"
| "np_rsub r NegInf = PosInf"

fun np_sub :: "np_float \<Rightarrow> np_float \<Rightarrow> np_float" where
  "np_sub (Fin a) (Fin b) = Fin (a - b)"
| "np_sub NaN _ = NaN"
| "np_sub _ NaN = NaN"
| "np_sub PosInf PosInf = NaN"
| "np_sub NegInf NegInf = NaN"
| "np_sub PosInf _ = PosInf"
| "np_sub NegInf _ = NegInf"
| "np_sub (Fin a) PosInf = NegInf"
| "np_sub (Fin a) NegInf = PosInf"

fun np_gt :: "np_float \<Rightarrow> real \<Rightarrow> bool" where
  "np_gt (Fin x) r = (x > r)"
| "np_gt PosInf r = True"
| "np_gt _ r = False"

fun np_lt :: "np_float \<Rightarrow> real \<Rightarrow> bool" where
  "np_lt (Fin x) r = (x < r)"
| "np_lt NegInf r = True"
| "np_lt _ r = False"

fun np_ge :: "np_float \<Rightarrow> real \<Rightarrow> bool" where
  "np_ge (Fin x) r = (x \<ge> r)"
| "np_ge PosInf r = True"
| "np_ge _ r = False"

text \<open>\<^verbatim>\<open>scores.min()\<close> and \<^verbatim>\<open>scores.max()\<close>: a reduction over an empty array raises.\<close>

fun np_min :: "real list \<Rightarrow> error + real" where
  "np_min [] = Inl (ValueError ''zero-size array to reduction operation minimum which has no identity'')"
| "np_min (x # xs) = Inr (fold min xs x)"

fun np_max :: "real list \<Rightarrow> error + real" where
  "np_max [] = Inl (ValueError ''zero-size array to reduction operation maximum which has no identity'')"
| "np_max (x # xs) = Inr (fold max xs x)"

subsection \<open>pandas tables\<close>

text \<open>\<^verbatim>\<open>df[c]\<close> raises \<^verbatim>\<open>KeyError\<close> when the column is absent.\<close>

definition getitem :: "dataframe \<Rightarrow> string \<Rightarrow> error + series" where
  "getitem d c = (case map_of (cols d) c of None \<Rightarrow> Inl (KeyError [c]) | Some s \<Rightarrow> Inr s)"

text \<open>
  \<^verbatim>\<open>df[c] = values\<close> replaces the column in place or appends it; the values must be as many
  as the rows.
\<close>

definition setitem :: "dataframe \<Rightarrow> string \<Rightarrow> series \<Rightarrow> error + dataframe" where
  "setitem d c s =
     (if length s = nrows d then Inr (d\<lparr>cols := AList.update c s (cols d)\<rparr>)
      else Inl (ValueError ''Length of values does not match length of index''))"

text \<open>\<^verbatim>\<open>df[c] = ""\<close>: a scalar fills the column.\<close>

definition setitem_scalar :: "dataframe \<Rightarrow> string \<Rightarrow> cell \<Rightarrow> dataframe" where
  "setitem_scalar d c v = d\<lparr>cols := AList.update c (replicate (nrows d) v) (cols d)\<rparr>"

text \<open>\<^verbatim>\<open>df[names]\<close>: the listed columns in the listed order; every absent one is reported.\<close>

definition select_columns :: "dataframe \<Rightarrow> string list \<Rightarrow> error + dataframe" where
  "select_columns d names =
     (case filter (\<lambda>c. map_of (cols d) c = None) names of
        [] \<Rightarrow>
          Inr (d\<lparr>cols := List.map_filter (\<lambda>c. map_option (Pair c) (map_of (cols d) c)) names\<rparr>)
      | missing \<Rightarrow> Inl (KeyError missing))"

definition fillna :: "real \<Rightarrow> dataframe \<Rightarrow> dataframe" where
  "fillna v d =
     d\<lparr>cols := map (\<lambda>(c, s). (c, map (\<lambda>x. if x = Num NaN then Num (Fin v) else x) s)) (cols d)\<rparr>"

text \<open>\<^verbatim>\<open>df.iloc[i]\<close>: the row at position \<open>i\<close>, as a mapping from column name to cell.\<close>

definition iloc :: "dataframe \<Rightarrow> nat \<Rightarrow> error + (string \<times> cell) list" where
  "iloc d i =
     (if i < nrows d then Inr (map (\<lambda>(c, s). (c, s ! i)) (cols d))
      else Inl (IndexError ''single positional indexer is out-of-bounds''))"

text \<open>\<^verbatim>\<open>df.iloc[indices]\<close>: the rows at the listed positions, as a table.\<close>

definition iloc_rows :: "dataframe \<Rightarrow> nat list \<Rightarrow> error + dataframe" where
  "iloc_rows d idxs =
     (if list_all (\<lambda>i. i < nrows d) idxs
      then Inr \<lparr>nrows = length idxs, cols = map (\<lambda>(c, s). (c, map (\<lambda>i. s ! i) idxs)) (cols d)\<rparr>
      else Inl (IndexError ''positional indexers are out-of-bounds''))"

text \<open>
  \<^verbatim>\<open>df.loc[labels, c] = values\<close> on a table read from a file, whose row labels are the
  positions: the listed rows of the column take the values in turn.
\<close>

fun assign_at :: "series \<Rightarrow> nat list \<Rightarrow> cell list \<Rightarrow> series" where
  "assign_at s (i # idxs) (v # vs) = assign_at (s[i := v]) idxs vs"
| "assign_at s _ _ = s"

definition loc_assign :: "dataframe \<Rightarrow> nat list \<Rightarrow> string \<Rightarrow> cell list \<Rightarrow> error + dataframe" where
  "loc_assign d idxs c vs =
     (if length vs \<noteq> length idxs
      then Inl (ValueError ''Must have equal len keys and value when setting with an iterable'')
      else case map_of (cols d) c of
             None \<Rightarrow> Inl (KeyError [c])
           | Some s \<Rightarrow> Inr (d\<lparr>cols := AList.update c (assign_at s idxs vs) (cols d)\<rparr>))"

section \<open>The libraries the detector calls\<close>

text \<open>
  The date parser, the categorical encoder, the scaler, the isolation forest and the
  attribution explainer are library code. The detector is verified for any behaviour of
  them: they are the fields of a record passed to every operation. \<open>'s\<close> is a fitted
  scaler, \<open>'m\<close> a fitted forest.

  numpy's default sort is not stable: the order in which \<^verbatim>\<open>argsort\<close> leaves equal
  entries depends on the build of the library. \<open>tie_order a i\<close> is the rank that the
  library's sort gives to index \<open>i\<close> among the entries of \<open>a\<close> equal to \<open>a ! i\<close>.
\<close>

record ('s, 'm) library =
  to_datetime :: "series \<Rightarrow> error + np_float list"
  cat_codes :: "series \<Rightarrow> int list"
  scaler_fit :: "dataframe \<Rightarrow> error + 's"
  scaler_transform :: "'s \<Rightarrow> dataframe \<Rightarrow> error + matrix"
  model_fit :: "matrix \<Rightarrow> error + 'm"
  decision_function :: "'m \<Rightarrow> matrix \<Rightarrow> real list"
  model_predict :: "'m \<Rightarrow> matrix \<Rightarrow> int list"
  shap_explainer :: "'m \<Rightarrow> matrix \<Rightarrow> error + matrix"
  tie_order :: "real list \<Rightarrow> nat \<Rightarrow> nat"

text \<open>
  \<^verbatim>\<open>a.argsort()\<close>: the indices of \<open>a\<close> in ascending order of their entries, equal entries
  in the order of the library's ranks (and in index order where the ranks are equal too):
  the indices are sorted by rank and then, stably, by entry. Every order of the indices
  that sorts \<open>a\<close> is the result for some \<open>tie_order\<close>.
\<close>

definition argsort :: "('s, 'm) library \<Rightarrow> real list \<Rightarrow> nat list" where
  "argsort lib a = sort_key (\<lambda>i. a ! i) (sort_key (tie_order lib a) [0..<length a])"

section \<open>The detector\<close>

record ('s, 'm) FraudDetector =
  df :: dataframe
  model :: "'m option"
  scaler :: "'s option"
  feature_cols :: "string list"
  X_raw :: dataframe

definition init :: "dataframe \<Rightarrow> ('s, 'm) FraudDetector" where
  "init table =
     \<lparr>df = table, model = None, scaler = None, feature_cols = [],
      X_raw = \<lparr>nrows = nrows table, cols = []\<rparr>\<rparr>"

subsection \<open>preprocess\<close>

text \<open>\<^verbatim>\<open>df[c] = df[c].astype('category').cat.codes\<close>, for each listed column in turn.\<close>

fun encode_categories ::
  "('s, 'm) library \<Rightarrow> string list \<Rightarrow> dataframe \<Rightarrow> error + dataframe" where
  "encode_categories lib [] d = Inr d"
| "encode_categories lib (c # cs) d =
     bind_err (getitem d c) (\<lambda>s.
     bind_err (setitem d c (map (\<lambda>k. Num (Fin (real_of_int k))) (cat_codes lib s)))
       (encode_categories lib cs))"

definition category_columns :: "string list" where
  "category_columns =
     [''TransactionType'', ''Channel'', ''Location'', ''DeviceID'', ''MerchantID'',
      ''CustomerOccupation'']"

definition feature_columns :: "string list" where
  "feature_columns =
     [''TransactionAmount'', ''TransactionType'', ''Location'', ''Channel'', ''DeviceID'',
      ''MerchantID'', ''CustomerAge'', ''CustomerOccupation'', ''TransactionDuration'',
      ''LoginAttempts'', ''AccountBalance'', ''TimeDiff'']"

definition preprocess ::
  "('s, 'm) library \<Rightarrow> ('s, 'm) FraudDetector \<Rightarrow> error + (matrix \<times> ('s, 'm) FraudDetector)" where
  "preprocess lib self =
     bind_err (getitem (df self) ''TransactionDate'') (\<lambda>c1.
     bind_err (to_datetime lib c1) (\<lambda>t1.
     bind_err (setitem (df self) ''TransactionDate'' (map Num t1)) (\<lambda>d1.
     bind_err (getitem d1 ''PreviousTransactionDate'') (\<lambda>c2.
     bind_err (to_datetime lib c2) (\<lambda>t2.
     bind_err (setitem d1 ''PreviousTransactionDate'' (map Num t2)) (\<lambda>d2.
     bind_err (setitem d2 ''TimeDiff'' (map (\<lambda>(a, b). Num (np_sub a b)) (zip t1 t2))) (\<lambda>d3.
     bind_err (encode_categories lib category_columns d3) (\<lambda>d4.
     let self1 = self\<lparr>feature_cols := feature_columns\<rparr> in
     bind_err (select_columns d4 (feature_cols self1)) (\<lambda>d5.
     let d6 = fillna 0 d5;
         self2 = self1\<lparr>X_raw := d6\<rparr> in
     bind_err (scaler_fit lib d6) (\<lambda>sc.
     bind_err (scaler_transform lib sc d6) (\<lambda>scaled.
     Inr (scaled, self2\<lparr>scaler := Some sc\<rparr>))))))))))))"

subsection \<open>generate\_explanations\<close>

definition friendly_names :: "(string \<times> string) list" where
  "friendly_names =
     [(''TransactionAmount'', ''Transaction amount was high''),
      (''LoginAttempts'', ''Unusual number of login attempts''),
      (''AccountBalance'', ''Account balance was low''),
      (''TransactionDuration'', ''Transaction took unusually long''),
      (''TimeDiff'', ''Short time since previous transaction''),
      (''CustomerAge'', ''Customer age was uncommon for such activity''),
      (''Channel'', ''Unusual channel used''),
      (''Location'', ''Suspicious location detected''),
      (''CustomerOccupation'', ''Uncommon occupation for this transaction type''),
      (''DeviceID'', ''Unfamiliar device used''),
      (''MerchantID'', ''Unrecognized merchant''),
      (''TransactionType'', ''Unusual transaction type'')]"

definition flag_TransactionAmount :: "np_float \<Rightarrow> string" where
  "flag_TransactionAmount val =
     (if np_gt val 100000 then ''very high'' else if np_gt val 50000 then ''high''
      else ''moderate'')"

definition flag_AccountBalance :: "np_float \<Rightarrow> string" where
  "flag_AccountBalance val =
     (if np_lt val 1000 then ''very low'' else if np_lt val 5000 then ''low''
      else ''sufficient'')"

definition flag_LoginAttempts :: "np_float \<Rightarrow> string" where
  "flag_LoginAttempts val = (if np_ge val 3 then ''multiple failed'' else ''normal'')"

definition flag_TimeDiff :: "np_float \<Rightarrow> string" where
  "flag_TimeDiff val =
     (if np_lt val 60 then ''immediately after previous''
      else if np_lt val 300 then ''short interval'' else ''normal delay'')"

definition risk_flags :: "(string \<times> (np_float \<Rightarrow> string)) list" where
  "risk_flags =
     [(''TransactionAmount'', flag_TransactionAmount),
      (''AccountBalance'', flag_AccountBalance),
      (''LoginAttempts'', flag_LoginAttempts),
      (''TimeDiff'', flag_TimeDiff)]"

text \<open>\<^verbatim>\<open>abs(row_values).argsort()[::-1][:top_n]\<close>\<close>

definition top_indices :: "('s, 'm) library \<Rightarrow> real list \<Rightarrow> nat \<Rightarrow> nat list" where
  "top_indices lib row_values top_n = take top_n (rev (argsort lib (map abs row_values)))"

text \<open>The arrow of the bullet text, in UTF-8.\<close>

definition arrow :: string where
  "arrow = [CHR 0xE2, CHR 0x86, CHR 0x92]"

definition newline :: string where
  "newline = [CHR 0x0A]"

text \<open>The body of the loop over \<^verbatim>\<open>top_indices\<close>: one bullet, or the error the body raises.\<close>

definition bullet ::
  "('s, 'm) FraudDetector \<Rightarrow> (string \<times> cell) list \<Rightarrow> real list \<Rightarrow> nat \<Rightarrow> error + string" where
  "bullet self row_data row_values idx =
     (if idx \<ge> length (feature_cols self) then Inl (IndexError ''list index out of range'')
      else
        let feature = feature_cols self ! idx in
        case map_of row_data feature of
          None \<Rightarrow> Inl (KeyError [feature])
        | Some val \<Rightarrow>
            let impact = row_values ! idx;
                direction = (if impact > 0 then ''increased'' else ''reduced'');
                description =
                  (case map_of friendly_names feature of
                     Some d \<Rightarrow> d
                   | None \<Rightarrow> feature @ '' was unusual'')
            in
            bind_err
              (case map_of risk_flags feature of
                 None \<Rightarrow> Inr []
               | Some flag \<Rightarrow>
                   (case val of
                      Num v \<Rightarrow> Inr ('' ('' @ flag v @ '')'')
                    | Str _ \<Rightarrow> Inl (TypeError ''comparison of str with int'')))
              (\<lambda>risk_level.
                 Inr (''<li style='color:#e63946'><b>'' @ description @ risk_level @ ''</b> ''
                      @ arrow @ '' '' @ direction @ '' fraud risk.</li>'')))"

fun map_err :: "('a \<Rightarrow> error + 'b) \<Rightarrow> 'a list \<Rightarrow> error + 'b list" where
  "map_err f [] = Inr []"
| "map_err f (x # xs) =
     bind_err (f x) (\<lambda>y. bind_err (map_err f xs) (\<lambda>ys. Inr (y # ys)))"

fun join :: "string \<Rightarrow> string list \<Rightarrow> string" where
  "join sep [] = []"
| "join sep [x] = x"
| "join sep (x # y # ys) = x @ sep @ join sep (y # ys)"

definition detailed_text :: "string list \<Rightarrow> string" where
  "detailed_text bullets =
     newline @ ''            <div style='color:#333;'>''
     @ newline @ ''            <p><strong>The model flagged this transaction as fraudulent based on the following factors:</strong></p>''
     @ newline @ ''            <ul>''
     @ newline @ ''            ''
     @ join newline bullets @ newline @ ''</ul></div>''"

text \<open>
  The bullets of the \<open>i\<close>-th row of \<open>X\<close>: the body of the outer loop up to the inner loop's
  end. The row's raw values are read from \<^verbatim>\<open>self.X_raw.iloc[i]\<close>.
\<close>

definition row_bullets ::
  "('s, 'm) library \<Rightarrow> ('s, 'm) FraudDetector \<Rightarrow> matrix \<Rightarrow> nat \<Rightarrow> nat \<Rightarrow> error + string list" where
  "row_bullets lib self shap_values top_n i =
     (if i \<ge> length shap_values then Inl (IndexError ''index out of bounds'')
      else
        let row_values = shap_values ! i in
        bind_err (iloc (X_raw self) i) (\<lambda>row_data.
        map_err (bullet self row_data row_values) (top_indices lib row_values top_n)))"

definition generate_explanations ::
  "('s, 'm) library \<Rightarrow> ('s, 'm) FraudDetector \<Rightarrow> matrix \<Rightarrow> nat \<Rightarrow> error + string list" where
  "generate_explanations lib self X top_n =
     (case model self of
        None \<Rightarrow> Inl NotFittedError
      | Some m \<Rightarrow>
          bind_err (shap_explainer lib m X) (\<lambda>shap_values.
          map_err
            (\<lambda>i. bind_err (row_bullets lib self shap_values top_n i) (\<lambda>bullets.
                   Inr (detailed_text bullets)))
            [0..<length X]))"

subsection \<open>predict\<close>

definition predict ::
  "('s, 'm) library \<Rightarrow> ('s, 'm) FraudDetector \<Rightarrow> error + (dataframe \<times> ('s, 'm) FraudDetector)" where
  "predict lib self =
     bind_err (preprocess lib self) (\<lambda>(X_scaled, self1).
     bind_err (model_fit lib X_scaled) (\<lambda>m.
     let self2 = self1\<lparr>model := Some m\<rparr>;
         scores = decision_function lib m X_scaled;
         preds = model_predict lib m X_scaled
     in
     bind_err (setitem (df self2) ''AnomalyScore'' (map (\<lambda>p. Num (Fin (real_of_int p))) preds))
       (\<lambda>d1.
     bind_err (getitem d1 ''AnomalyScore'') (\<lambda>anomaly.
     bind_err (setitem d1 ''IsFraud''
                 (map (\<lambda>x. if x = Num (Fin (- 1)) then Num (Fin 1) else Num (Fin 0)) anomaly))
       (\<lambda>d2.
     bind_err (np_min scores) (\<lambda>score_min.
     bind_err (np_max scores) (\<lambda>score_max.
     bind_err (setitem d2 ''FraudProbability''
                 (map (\<lambda>s. Num (np_rsub 1 (np_div (s - score_min) (score_max - score_min))))
                    scores))
       (\<lambda>d3.
     bind_err (getitem d3 ''IsFraud'') (\<lambda>is_fraud.
     let fraud_indices = filter (\<lambda>i. is_fraud ! i = Num (Fin 1)) [0..<nrows d3] in
     if fraud_indices \<noteq> [] then
       bind_err (iloc_rows (X_raw self2) fraud_indices) (\<lambda>rows.
       let X_fraud = fillna 0 rows in
       case scaler self2 of
         None \<Rightarrow> Inl NotFittedError
       | Some sc \<Rightarrow>
           bind_err (scaler_transform lib sc X_fraud) (\<lambda>X_fraud_scaled.
           bind_err (generate_explanations lib self2 X_fraud_scaled 3) (\<lambda>explanations.
           let d4 = setitem_scalar d3 ''FraudExplanation'' (Str []) in
           bind_err (loc_assign d4 fraud_indices ''FraudExplanation'' (map Str explanations))
             (\<lambda>d5. Inr (d5, self2\<lparr>df := d5\<rparr>)))))
     else
       let d4 = setitem_scalar d3 ''FraudExplanation'' (Str []) in
       Inr (d4, self2\<lparr>df := d4\<rparr>))))))))))"

section \<open>Views of a run, and the spec's notions\<close>

text \<open>
  The values of the local variables \<^verbatim>\<open>scores\<close> and \<^verbatim>\<open>preds\<close> of \<open>predict\<close>: what the
  fitted forest's \<^verbatim>\<open>decision_function\<close> and \<^verbatim>\<open>predict\<close> return on the scaled batch.
\<close>

definition raw_scores :: "('s, 'm) library \<Rightarrow> ('s, 'm) FraudDetector \<Rightarrow> error + real list" where
  "raw_scores lib self =
     bind_err (preprocess lib self) (\<lambda>(X_scaled, self1).
     bind_err (model_fit lib X_scaled) (\<lambda>m. Inr (decision_function lib m X_scaled)))"

definition outlier_decisions :: "('s, 'm) library \<Rightarrow> ('s, 'm) FraudDetector \<Rightarrow> error + int list" where
  "outlier_decisions lib self =
     bind_err (preprocess lib self) (\<lambda>(X_scaled, self1).
     bind_err (model_fit lib X_scaled) (\<lambda>m. Inr (model_predict lib m X_scaled)))"

text \<open>A column of the table a run returns.\<close>

definition column_of :: "error + (dataframe \<times> 'x) \<Rightarrow> string \<Rightarrow> error + series" where
  "column_of r c = bind_err r (\<lambda>(t, _). getitem t c)"

text \<open>
  The specification's min-max normalisation of a raw score over the batch's range of
  raw scores.
\<close>

definition minmax_normalized :: "real list \<Rightarrow> real \<Rightarrow> real" where
  "minmax_normalized scores s = (s - Min (set scores)) / (Max (set scores) - Min (set scores))"

text \<open>
  The specification's ranking: the features sorted by descending absolute contribution
  with a stable sort, so that equal contributions stay in ascending feature order, and the
  first \<open>n\<close> of them.
\<close>

definition spec_top_n :: "real list \<Rightarrow> nat \<Rightarrow> nat list" where
  "spec_top_n row_values n =
     take n (sort_key (\<lambda>i. - \<bar>row_values ! i\<bar>) [0..<length row_values])"

text \<open>
  The order in which \<open>top_indices\<close> lists two features whatever the library: a feature is
  never listed before one of larger absolute contribution.
\<close>

definition at_least_as_large :: "real list \<Rightarrow> nat \<Rightarrow> nat \<Rightarrow> bool" where
  "at_least_as_large row_values i j = (\<bar>row_values ! j\<bar> \<le> \<bar>row_values ! i\<bar>)"

text \<open>
  The order in which \<open>top_indices\<close> lists two features with a given library: the larger
  absolute contribution first, and of two equal ones the feature that the library's sort
  ranks later among equal entries.
\<close>

definition ranked_before :: "('s, 'm) library \<Rightarrow> real list \<Rightarrow> nat \<Rightarrow> nat \<Rightarrow> bool" where
  "ranked_before lib row_values i j =
     (\<bar>row_values ! i\<bar> > \<bar>row_values ! j\<bar>
      \<or> (\<bar>row_values ! i\<bar> = \<bar>row_values ! j\<bar>
          \<and> tie_order lib (map abs row_values) j \<le> tie_order lib (map abs row_values) i))"

text \<open>A value of the result table lies in the unit interval: it is a finite number from 0 to 1.\<close>

fun in_unit_interval :: "cell \<Rightarrow> bool" where
  "in_unit_interval (Num (Fin x)) = (0 \<le> x \<and> x \<le> 1)"
| "in_unit_interval _ = False"

text \<open>A table as the reader of the input file produces it: every column has one cell per row.\<close>

definition well_formed :: "dataframe \<Rightarrow> bool" where
  "well_formed d = list_all (\<lambda>(c, s). length s = nrows d) (cols d)"


text \<open>The number of features of a row whose contribution is not zero.\<close>

definition nonzero_contributions :: "real list \<Rightarrow> nat" where
  "nonzero_contributions row_values = length (filter (\<lambda>c. c \<noteq> 0) row_values)"


section \<open>Example runs\<close>

text \<open>
  A small instance of the libraries, for evaluating the detector on concrete batches.
  Dates are already numbers of seconds, every category has code 0, the scaler leaves the
  values as they are, the forest's score of a row falls with the transaction amount, its
  outlier decision is \<open>-1\<close> exactly on a negative score (as the isolation forest
  decides), a feature's contribution is proportional to its value, and the sort leaves
  equal entries in index order (as a stable sort does).
\<close>

definition example_matrix :: "dataframe \<Rightarrow> matrix" where
  "example_matrix d =
     map (\<lambda>i. map (\<lambda>(c, s). case s ! i of Num (Fin x) \<Rightarrow> x | _ \<Rightarrow> 0) (cols d)) [0..<nrows d]"

definition example_library :: "(unit, unit) library" where
  "example_library =
     \<lparr>to_datetime = (\<lambda>s. Inr (map (\<lambda>c. case c of Num v \<Rightarrow> v | Str _ \<Rightarrow> NaN) s)),
      cat_codes = (\<lambda>s. map (\<lambda>c. 0) s),
      scaler_fit = (\<lambda>d. Inr ()),
      scaler_transform = (\<lambda>_ d. Inr (example_matrix d)),
      model_fit = (\<lambda>X. Inr ()),
      decision_function = (\<lambda>_ X. map (\<lambda>row. (100000 - row ! 0) / 1000000) X),
      model_predict =
        (\<lambda>_ X. map (\<lambda>row. if (100000 - row ! 0) / 1000000 < 0 then - 1 else 1) X),
      shap_explainer = (\<lambda>_ X. Inr (map (\<lambda>row. map (\<lambda>x. - x / 1000000) row) X)),
      tie_order = (\<lambda>a i. 0)\<rparr>"

text \<open>
  The same libraries with a sort that leaves equal entries in descending index order, and
  with a date parser that rejects every column.
\<close>

definition descending_ties_library :: "(unit, unit) library" where
  "descending_ties_library = example_library\<lparr>tie_order := (\<lambda>a i. length a - i)\<rparr>"

definition failing_dates_library :: "(unit, unit) library" where
  "failing_dates_library =
     example_library\<lparr>to_datetime := (\<lambda>s. Inl (LibraryError ''Unknown datetime string format''))\<rparr>"

text \<open>Two transactions; the second one, of amount 200000, is the one the forest flags.\<close>

definition example_batch :: dataframe where
  "example_batch =
     \<lparr>nrows = 2, cols =
       [(''TransactionID'', [Str ''TX1'', Str ''TX2'']),
        (''TransactionAmount'', [Num (Fin 20000), Num (Fin 200000)]),
        (''TransactionDate'', [Num (Fin 1000), Num (Fin 2000)]),
        (''TransactionType'', [Str ''Debit'', Str ''Credit'']),
        (''Location'', [Str ''Pune'', Str ''Delhi'']),
        (''DeviceID'', [Str ''D1'', Str ''D2'']),
        (''MerchantID'', [Str ''M1'', Str ''M2'']),
        (''Channel'', [Str ''ATM'', Str ''Online'']),
        (''CustomerAge'', [Num (Fin 30), Num (Fin 40)]),
        (''CustomerOccupation'', [Str ''Doctor'', Str ''Student'']),
        (''TransactionDuration'', [Num (Fin 50), Num (Fin 60)]),
        (''LoginAttempts'', [Num (Fin 1), Num (Fin 5)]),
        (''AccountBalance'', [Num (Fin 8000), Num (Fin 500)]),
        (''PreviousTransactionDate'', [Num (Fin 100), Num (Fin 1990)])]\<rparr>"

text \<open>Three transactions, the first two flagged, with different raw scores.\<close>

definition three_row_batch :: dataframe where
  "three_row_batch =
     \<lparr>nrows = 3, cols =
       [(''TransactionID'', [Str ''TX1'', Str ''TX2'', Str ''TX3'']),
        (''TransactionAmount'', [Num (Fin 200000), Num (Fin 300000), Num (Fin 50000)]),
        (''TransactionDate'', [Num (Fin 1000), Num (Fin 2000), Num (Fin 3000)]),
        (''TransactionType'', [Str ''Debit'', Str ''Credit'', Str ''Debit'']),
        (''Location'', [Str ''Pune'', Str ''Delhi'', Str ''Pune'']),
        (''DeviceID'', [Str ''D1'', Str ''D2'', Str ''D3'']),
        (''MerchantID'', [Str ''M1'', Str ''M2'', Str ''M3'']),
        (''Channel'', [Str ''ATM'', Str ''Online'', Str ''ATM'']),
        (''CustomerAge'', [Num (Fin 30), Num (Fin 40), Num (Fin 50)]),
        (''CustomerOccupation'', [Str ''Doctor'', Str ''Student'', Str ''Engineer'']),
        (''TransactionDuration'', [Num (Fin 50), Num (Fin 60), Num (Fin 70)]),
        (''LoginAttempts'', [Num (Fin 1), Num (Fin 5), Num (Fin 1)]),
        (''AccountBalance'', [Num (Fin 8000), Num (Fin 500), Num (Fin 9000)]),
        (''PreviousTransactionDate'', [Num (Fin 100), Num (Fin 1990), Num (Fin 2000)])]\<rparr>"

text \<open>A batch of one transaction.\<close>

definition single_row_batch :: dataframe where
  "single_row_batch =
     \<lparr>nrows = 1, cols =
       [(''TransactionID'', [Str ''TX1'']),
        (''TransactionAmount'', [Num (Fin 20000)]),
        (''TransactionDate'', [Num (Fin 1000)]),
        (''TransactionType'', [Str ''Debit'']),
        (''Location'', [Str ''Pune'']),
        (''DeviceID'', [Str ''D1'']),
        (''MerchantID'', [Str ''M1'']),
        (''Channel'', [Str ''ATM'']),
        (''CustomerAge'', [Num (Fin 30)]),
        (''CustomerOccupation'', [Str ''Doctor'']),
        (''TransactionDuration'', [Num (Fin 50)]),
        (''LoginAttempts'', [Num (Fin 1)]),
        (''AccountBalance'', [Num (Fin 8000)]),
        (''PreviousTransactionDate'', [Num (Fin 100)])]\<rparr>"


text \<open>The two transactions of \<open>example_batch\<close> without the account balance.\<close>

definition batch_without_balance :: dataframe where
  "batch_without_balance =
     example_batch\<lparr>cols := filter (\<lambda>(c, s). c \<noteq> ''AccountBalance'') (cols example_batch)\<rparr>"

text \<open>Two transactions that differ in their identifier only.\<close>

definition twin_batch :: dataframe where
  "twin_batch =
     \<lparr>nrows = 2, cols =
       [(''TransactionID'', [Str ''TX1'', Str ''TX2'']),
        (''TransactionAmount'', [Num (Fin 20000), Num (Fin 20000)]),
        (''TransactionDate'', [Num (Fin 1000), Num (Fin 1000)]),
        (''TransactionType'', [Str ''Debit'', Str ''Debit'']),
        (''Location'', [Str ''Pune'', Str ''Pune'']),
        (''DeviceID'', [Str ''D1'', Str ''D1'']),
        (''MerchantID'', [Str ''M1'', Str ''M1'']),
        (''Channel'', [Str ''ATM'', Str ''ATM'']),
        (''CustomerAge'', [Num (Fin 30), Num (Fin 30)]),
        (''CustomerOccupation'', [Str ''Doctor'', Str ''Doctor'']),
        (''TransactionDuration'', [Num (Fin 50), Num (Fin 50)]),
        (''LoginAttempts'', [Num (Fin 1), Num (Fin 1)]),
        (''AccountBalance'', [Num (Fin 8000), Num (Fin 8000)]),
        (''PreviousTransactionDate'', [Num (Fin 100), Num (Fin 100)])]\<rparr>"

text \<open>
  The detector as \<open>predict\<close> leaves it on \<open>example_batch\<close> when it calls
  \<open>generate_explanations\<close>: the feature list and the raw feature table are set.
\<close>

definition example_state :: "(unit, unit) FraudDetector" where
  "example_state =
     \<lparr>df = example_batch, model = Some (), scaler = Some (),
      feature_cols = feature_columns,
      X_raw =
        \<lparr>nrows = 2, cols =
          [(''TransactionAmount'', [Num (Fin 20000), Num (Fin 200000)]),
           (''TransactionType'', [Num (Fin 0), Num (Fin 0)]),
           (''Location'', [Num (Fin 0), Num (Fin 0)]),
           (''Channel'', [Num (Fin 0), Num (Fin 0)]),
           (''DeviceID'', [Num (Fin 0), Num (Fin 0)]),
           (''MerchantID'', [Num (Fin 0), Num (Fin 0)]),
           (''CustomerAge'', [Num (Fin 30), Num (Fin 40)]),
           (''CustomerOccupation'', [Num (Fin 0), Num (Fin 0)]),
           (''TransactionDuration'', [Num (Fin 50), Num (Fin 60)]),
           (''LoginAttempts'', [Num (Fin 1), Num (Fin 5)]),
           (''AccountBalance'', [Num (Fin 8000), Num (Fin 500)]),
           (''TimeDiff'', [Num (Fin 900), Num (Fin 10)])]\<rparr>\<rparr>"

section \<open>Basic facts\<close>

lemma bind_err_Inr: "bind_err r f = Inr y \<longleftrightarrow> (\<exists>x. r = Inr x \<and> f x = Inr y)"
  by (cases r) (simp_all add: bind_err_def)



lemma getitem_Inr: "getitem d c = Inr s \<longleftrightarrow> map_of (cols d) c = Some s"
  by (simp add: getitem_def split: option.splits)

lemma setitem_Inr:
  "setitem d c s = Inr d' \<longleftrightarrow> length s = nrows d \<and> d' = d\<lparr>cols := AList.update c s (cols d)\<rparr>"
  by (auto simp: setitem_def)

lemma nrows_setitem: "setitem d c s = Inr d' \<Longrightarrow> nrows d' = nrows d"
  by (auto simp: setitem_Inr)


lemma length_assign_at: "length (assign_at s idxs vs) = length s"
  by (induction s idxs vs rule: assign_at.induct) simp_all

lemma assign_at_other: "i \<notin> set idxs \<Longrightarrow> assign_at s idxs vs ! i = s ! i"
  by (induction s idxs vs rule: assign_at.induct) auto

lemma fold_min_Min: "fold min xs (x::real) = Min (set (x # xs))"
  by (rule Min.set_eq_fold [symmetric])

lemma fold_max_Max: "fold max xs (x::real) = Max (set (x # xs))"
  by (rule Max.set_eq_fold [symmetric])

lemma np_min_Inr: "np_min xs = Inr lo \<longleftrightarrow> xs \<noteq> [] \<and> lo = Min (set xs)"
  by (cases xs) (auto simp: fold_min_Min)

lemma np_max_Inr: "np_max xs = Inr hi \<longleftrightarrow> xs \<noteq> [] \<and> hi = Max (set xs)"
  by (cases xs) (auto simp: fold_max_Max)

lemma nrows_encode_categories:
  "encode_categories lib cs d = Inr d' \<Longrightarrow> nrows d' = nrows d"
  by (induction cs arbitrary: d) (auto simp: bind_err_Inr dest: nrows_setitem)

lemma nrows_select_columns: "select_columns d names = Inr d' \<Longrightarrow> nrows d' = nrows d"
  by (auto simp: select_columns_def split: list.splits)

lemma nrows_fillna: "nrows (fillna v d) = nrows d"
  by (simp add: fillna_def)

lemma preprocess_Inr:
  assumes "preprocess lib self = Inr (X, self1)"
  shows "df self1 = df self \<and> model self1 = model self \<and> feature_cols self1 = feature_columns
         \<and> nrows (X_raw self1) = nrows (df self) \<and> (\<exists>sc. scaler self1 = Some sc)"
  using assms unfolding preprocess_def Let_def
  by (auto simp: bind_err_Inr nrows_fillna
           dest!: nrows_setitem nrows_encode_categories nrows_select_columns)

lemma real_of_int_m1: "real_of_int p = - 1 \<longleftrightarrow> p = - 1"
  by linarith

lemma is_fraud_of_preds:
  "map (\<lambda>x. if x = Num (Fin (- 1)) then Num (Fin 1) else Num (Fin 0))
       (map (\<lambda>p. Num (Fin (real_of_int p))) preds)
   = map (\<lambda>p. if p = - 1 then Num (Fin 1) else Num (Fin 0)) preds"
  by (simp add: real_of_int_m1)

text \<open>What a run that returns has computed, column by column.\<close>

lemma predict_Inr:
  assumes "predict lib self = Inr (tbl, self')"
  shows "\<exists>scores preds.
           raw_scores lib self = Inr scores \<and> outlier_decisions lib self = Inr preds \<and>
           scores \<noteq> [] \<and> length scores = nrows (df self) \<and> length preds = nrows (df self) \<and>
           nrows tbl = nrows (df self) \<and>
           getitem tbl ''AnomalyScore'' = Inr (map (\<lambda>p. Num (Fin (real_of_int p))) preds) \<and>
           getitem tbl ''IsFraud'' =
             Inr (map (\<lambda>p. if p = - 1 then Num (Fin 1) else Num (Fin 0)) preds) \<and>
           getitem tbl ''FraudProbability'' =
             Inr (map (\<lambda>s. Num (np_rsub 1 (np_div (s - Min (set scores))
                                                  (Max (set scores) - Min (set scores)))))
                    scores) \<and>
           (\<exists>expl. getitem tbl ''FraudExplanation'' = Inr expl \<and>
                   length expl = nrows (df self) \<and>
                   (\<forall>i<nrows (df self). preds ! i \<noteq> - 1 \<longrightarrow> expl ! i = Str []))"
  using assms
  apply (clarsimp simp: predict_def raw_scores_def outlier_decisions_def bind_err_Inr Let_def
                  split: if_splits option.splits)
  apply (frule preprocess_Inr)
  apply (clarsimp simp: is_fraud_of_preds np_min_Inr np_max_Inr setitem_Inr getitem_Inr
                        update_conv' loc_assign_def setitem_scalar_def
                  split: if_splits option.splits)
  apply (intro conjI allI impI)
   apply (simp add: length_assign_at)
  apply (subst assign_at_other)
   apply (auto simp: real_of_int_m1)
  done

lemma example_run_returns: "isl (predict example_library (init example_batch)) = False"
  by code_simp

lemma example_run: "\<exists>tbl self'. predict example_library (init example_batch) = Inr (tbl, self')"
  using example_run_returns by (cases "predict example_library (init example_batch)") auto

section \<open>The columns of the result table\<close>

text \<open>
  C1 (as the code has it): the \<^verbatim>\<open>AnomalyScore\<close> column of the table a run returns holds,
  for every row, the forest's outlier decision for that row (the value of
  \<^verbatim>\<open>model.predict\<close>, \<open>-1\<close> for an outlier and \<open>1\<close> for an inlier), not the value of
  the decision function.
\<close>

theorem anomaly_score_is_outlier_decision:
  assumes "predict lib self = Inr (tbl, self')"
  shows "\<exists>preds. outlier_decisions lib self = Inr preds \<and>
                 getitem tbl ''AnomalyScore'' = Inr (map (\<lambda>p. Num (Fin (real_of_int p))) preds)"
  using predict_Inr [OF assms] by blast

theorem anomaly_score_is_outlier_decision_witness:
  "\<exists>tbl self'. predict example_library (init example_batch) = Inr (tbl, self') \<and>
     (\<exists>preds. outlier_decisions example_library (init example_batch) = Inr preds \<and>
              getitem tbl ''AnomalyScore'' = Inr (map (\<lambda>p. Num (Fin (real_of_int p))) preds))"
proof -
  from example_run obtain tbl self' where
    run: "predict example_library (init example_batch) = Inr (tbl, self')"
    by blast
  from anomaly_score_is_outlier_decision [OF run] run show ?thesis
    by blast
qed

text \<open>
  C1 as stated fails: on \<open>example_batch\<close> the raw scores are \<open>0.08\<close> and \<open>-0.1\<close>, and
  the \<^verbatim>\<open>AnomalyScore\<close> column holds \<open>1\<close> and \<open>-1\<close>.
\<close>

theorem anomaly_score_not_raw_score:
  "raw_scores example_library (init example_batch) = Inr [2 / 25, - 1 / 10] \<and>
   column_of (predict example_library (init example_batch)) ''AnomalyScore''
     = Inr [Num (Fin 1), Num (Fin (- 1))]"
  by code_simp

text \<open>
  C8: in the table a run returns, the rows whose \<^verbatim>\<open>IsFraud\<close> is 1 are exactly the rows
  the forest's own outlier decision flags (decision \<open>-1\<close>); every other row has
  \<^verbatim>\<open>IsFraud\<close> 0 and the empty string as its \<^verbatim>\<open>FraudExplanation\<close>.
\<close>

theorem is_fraud_exactly_flagged:
  assumes "predict lib self = Inr (tbl, self')"
  shows "\<exists>preds is_fraud expl.
           outlier_decisions lib self = Inr preds \<and>
           getitem tbl ''IsFraud'' = Inr is_fraud \<and>
           getitem tbl ''FraudExplanation'' = Inr expl \<and>
           length preds = nrows tbl \<and> length is_fraud = nrows tbl \<and> length expl = nrows tbl \<and>
           (\<forall>i<nrows tbl.
              (is_fraud ! i = Num (Fin 1) \<longleftrightarrow> preds ! i = - 1) \<and>
              (is_fraud ! i \<noteq> Num (Fin 1) \<longrightarrow> is_fraud ! i = Num (Fin 0) \<and> expl ! i = Str []))"
proof -
  from predict_Inr [OF assms] obtain scores preds expl where
    p: "outlier_decisions lib self = Inr preds"
       "length preds = nrows (df self)" "nrows tbl = nrows (df self)"
       "getitem tbl ''IsFraud'' =
          Inr (map (\<lambda>p. if p = - 1 then Num (Fin 1) else Num (Fin 0)) preds)"
       "getitem tbl ''FraudExplanation'' = Inr expl" "length expl = nrows (df self)"
       "\<forall>i<nrows (df self). preds ! i \<noteq> - 1 \<longrightarrow> expl ! i = Str []"
    by blast
  let ?f = "map (\<lambda>p. if p = - 1 then Num (Fin 1) else Num (Fin 0)) preds"
  have "\<forall>i<nrows tbl.
          (?f ! i = Num (Fin 1) \<longleftrightarrow> preds ! i = - 1) \<and>
          (?f ! i \<noteq> Num (Fin 1) \<longrightarrow> ?f ! i = Num (Fin 0) \<and> expl ! i = Str [])"
    using p(2,3,7) by simp
  with p show ?thesis
    by (intro exI [of _ preds] exI [of _ ?f] exI [of _ expl]) simp
qed

theorem is_fraud_exactly_flagged_witness:
  "\<exists>tbl self'. predict example_library (init example_batch) = Inr (tbl, self') \<and>
     (\<exists>preds is_fraud expl.
           outlier_decisions example_library (init example_batch) = Inr preds \<and>
           getitem tbl ''IsFraud'' = Inr is_fraud \<and>
           getitem tbl ''FraudExplanation'' = Inr expl \<and>
           length preds = nrows tbl \<and> length is_fraud = nrows tbl \<and> length expl = nrows tbl \<and>
           (\<forall>i<nrows tbl.
              (is_fraud ! i = Num (Fin 1) \<longleftrightarrow> preds ! i = - 1) \<and>
              (is_fraud ! i \<noteq> Num (Fin 1) \<longrightarrow> is_fraud ! i = Num (Fin 0) \<and> expl ! i = Str [])))"
proof -
  from example_run obtain tbl self' where
    run: "predict example_library (init example_batch) = Inr (tbl, self')"
    by blast
  from is_fraud_exactly_flagged [OF run] run show ?thesis
    by blast
qed

section \<open>The probability calibration\<close>

lemma minmax_normalized_range:
  assumes "s \<in> set scores" and "Min (set scores) \<noteq> Max (set scores)"
  shows "0 \<le> minmax_normalized scores s \<and> minmax_normalized scores s \<le> 1"
proof -
  have b: "Min (set scores) \<le> s" "s \<le> Max (set scores)"
    using assms(1) by simp_all
  then have "Min (set scores) < Max (set scores)"
    using assms(2) by linarith
  with b show ?thesis
    by (simp add: minmax_normalized_def)
qed

lemma calibrated_cell:
  assumes "lo \<noteq> hi"
  shows "np_rsub 1 (np_div (s - lo) (hi - lo)) = Fin (1 - (s - lo) / (hi - lo))"
  using assms by (simp add: np_div_def)

lemma calibrated_column:
  assumes "Min (set scores) \<noteq> Max (set scores)"
  shows "map (\<lambda>s. Num (np_rsub 1 (np_div (s - Min (set scores))
                                        (Max (set scores) - Min (set scores))))) scores
         = map (\<lambda>s. Num (Fin (1 - minmax_normalized scores s))) scores"
  using assms by (simp add: calibrated_cell minmax_normalized_def)

lemma predict_probability_column:
  assumes "predict lib self = Inr (tbl, self')" and "raw_scores lib self = Inr scores"
  shows "getitem tbl ''FraudProbability'' =
           Inr (map (\<lambda>s. Num (np_rsub 1 (np_div (s - Min (set scores))
                                                (Max (set scores) - Min (set scores)))))
                  scores)
         \<and> length scores = nrows tbl \<and> scores \<noteq> []"
  using predict_Inr [OF assms(1)] assms(2) by auto

text \<open>
  When the raw scores of the batch are not all equal, every row's \<^verbatim>\<open>FraudProbability\<close>
  in the table a run returns is 1 minus the min-max normalisation of the row's raw score
  over the batch's range of raw scores, and that value lies between 0 and 1.
\<close>

lemma fraud_probability_minmax:
  assumes "predict lib self = Inr (tbl, self')"
    and "raw_scores lib self = Inr scores"
    and "Min (set scores) \<noteq> Max (set scores)"
  shows "getitem tbl ''FraudProbability'' =
           Inr (map (\<lambda>s. Num (Fin (1 - minmax_normalized scores s))) scores)
         \<and> length scores = nrows tbl
         \<and> (\<forall>s\<in>set scores. 0 \<le> 1 - minmax_normalized scores s
                             \<and> 1 - minmax_normalized scores s \<le> 1)"
proof -
  have "\<forall>s\<in>set scores. 0 \<le> 1 - minmax_normalized scores s
                        \<and> 1 - minmax_normalized scores s \<le> 1"
    using minmax_normalized_range [OF _ assms(3)] by fastforce
  then show ?thesis
    using predict_probability_column [OF assms(1,2)] calibrated_column [OF assms(3)] by simp
qed

lemma three_row_run_returns: "isl (predict example_library (init three_row_batch)) = False"
  by code_simp

lemma three_row_run:
  "\<exists>tbl self'. predict example_library (init three_row_batch) = Inr (tbl, self')"
  using three_row_run_returns by (cases "predict example_library (init three_row_batch)") auto

lemma three_row_scores:
  "raw_scores example_library (init three_row_batch) = Inr [- 1 / 10, - 1 / 5, 1 / 20]"
  by code_simp

lemma three_row_scores_differ:
  "Min (set [- 1 / 10, - 1 / 5, 1 / 20 :: real]) \<noteq> Max (set [- 1 / 10, - 1 / 5, 1 / 20])"
  by simp

lemma fraud_probability_minmax_example:
  "\<exists>tbl self'. predict example_library (init three_row_batch) = Inr (tbl, self') \<and>
     raw_scores example_library (init three_row_batch) = Inr [- 1 / 10, - 1 / 5, 1 / 20] \<and>
     Min (set [- 1 / 10, - 1 / 5, 1 / 20 :: real]) \<noteq> Max (set [- 1 / 10, - 1 / 5, 1 / 20]) \<and>
     getitem tbl ''FraudProbability'' =
       Inr (map (\<lambda>s. Num (Fin (1 - minmax_normalized [- 1 / 10, - 1 / 5, 1 / 20] s)))
              [- 1 / 10, - 1 / 5, 1 / 20])"
proof -
  from three_row_run obtain tbl self' where
    run: "predict example_library (init three_row_batch) = Inr (tbl, self')"
    by blast
  from fraud_probability_minmax [OF run three_row_scores three_row_scores_differ]
    run three_row_scores three_row_scores_differ
  show ?thesis
    by blast
qed

text \<open>
  C10: when the raw scores of the batch are not all equal, every row with the maximum raw
  score has \<^verbatim>\<open>FraudProbability\<close> exactly 0 and every row with the minimum raw score has
  \<^verbatim>\<open>FraudProbability\<close> exactly 1.
\<close>

theorem fraud_probability_attains_bounds:
  assumes "predict lib self = Inr (tbl, self')"
    and "raw_scores lib self = Inr scores"
    and "Min (set scores) \<noteq> Max (set scores)"
  shows "\<exists>p. getitem tbl ''FraudProbability'' = Inr p \<and> length p = length scores \<and>
             length scores = nrows tbl \<and>
             (\<forall>i<length scores.
                (scores ! i = Max (set scores) \<longrightarrow> p ! i = Num (Fin 0)) \<and>
                (scores ! i = Min (set scores) \<longrightarrow> p ! i = Num (Fin 1)))"
proof -
  let ?p = "map (\<lambda>s. Num (np_rsub 1 (np_div (s - Min (set scores))
                                              (Max (set scores) - Min (set scores))))) scores"
  have "\<forall>i<length scores.
          (scores ! i = Max (set scores) \<longrightarrow> ?p ! i = Num (Fin 0)) \<and>
          (scores ! i = Min (set scores) \<longrightarrow> ?p ! i = Num (Fin 1))"
    using assms(3) by (auto simp: calibrated_cell)
  then show ?thesis
    using predict_probability_column [OF assms(1,2)] by (intro exI [of _ ?p]) simp
qed

theorem fraud_probability_attains_bounds_witness:
  "\<exists>tbl self'. predict example_library (init three_row_batch) = Inr (tbl, self') \<and>
     raw_scores example_library (init three_row_batch) = Inr [- 1 / 10, - 1 / 5, 1 / 20] \<and>
     Min (set [- 1 / 10, - 1 / 5, 1 / 20 :: real]) \<noteq> Max (set [- 1 / 10, - 1 / 5, 1 / 20]) \<and>
     (\<exists>p. getitem tbl ''FraudProbability'' = Inr p \<and> p ! 1 = Num (Fin 1) \<and> p ! 2 = Num (Fin 0))"
proof -
  from three_row_run obtain tbl self' where
    run: "predict example_library (init three_row_batch) = Inr (tbl, self')"
    by blast
  from fraud_probability_attains_bounds [OF run three_row_scores three_row_scores_differ]
  obtain p where p: "getitem tbl ''FraudProbability'' = Inr p"
    "\<forall>i<length [- 1 / 10, - 1 / 5, 1 / 20 :: real].
       ([- 1 / 10, - 1 / 5, 1 / 20 :: real] ! i = Max (set [- 1 / 10, - 1 / 5, 1 / 20])
          \<longrightarrow> p ! i = Num (Fin 0)) \<and>
       ([- 1 / 10, - 1 / 5, 1 / 20 :: real] ! i = Min (set [- 1 / 10, - 1 / 5, 1 / 20])
          \<longrightarrow> p ! i = Num (Fin 1))"
    by blast
  from p(2) have "p ! 1 = Num (Fin 1)" "p ! 2 = Num (Fin 0)"
    by (simp_all add: nth_Cons')
  with p(1) run three_row_scores three_row_scores_differ show ?thesis
    by blast
qed

text \<open>
  C2 (as the code has it): when the raw scores of the batch are not all equal,
  \<^verbatim>\<open>FraudProbability\<close> is a finite number in every row and is antitone in the raw
  decision-function score: a row whose raw score is at most another row's has a
  \<^verbatim>\<open>FraudProbability\<close> at least the other's, so a row holding the minimum raw score has
  a \<^verbatim>\<open>FraudProbability\<close> at least that of every row.
\<close>

theorem fraud_probability_antitone_in_raw_score:
  assumes "predict lib self = Inr (tbl, self')"
    and "raw_scores lib self = Inr scores"
    and "Min (set scores) \<noteq> Max (set scores)"
  shows "\<exists>p. getitem tbl ''FraudProbability'' = Inr (map (\<lambda>x. Num (Fin x)) p) \<and>
             length p = length scores \<and> length scores = nrows tbl \<and>
             (\<forall>i<length scores. \<forall>j<length scores. scores ! i \<le> scores ! j \<longrightarrow> p ! j \<le> p ! i) \<and>
             (\<forall>i<length scores. scores ! i = Min (set scores) \<longrightarrow>
                (\<forall>j<length scores. p ! j \<le> p ! i))"
proof -
  let ?lo = "Min (set scores)" and ?hi = "Max (set scores)"
  let ?p = "map (\<lambda>s. 1 - minmax_normalized scores s) scores"
  have lt: "?lo < ?hi"
  proof -
    from predict_probability_column [OF assms(1,2)] have "scores \<noteq> []" by simp
    then have "?lo \<le> ?hi" by (simp add: Min_le_iff)
    with assms(3) show ?thesis by linarith
  qed
  have mono: "\<forall>i<length scores. \<forall>j<length scores. scores ! i \<le> scores ! j \<longrightarrow> ?p ! j \<le> ?p ! i"
    using lt by (simp add: minmax_normalized_def divide_right_mono)
  have "\<forall>i<length scores. scores ! i = ?lo \<longrightarrow> (\<forall>j<length scores. ?p ! j \<le> ?p ! i)"
  proof (intro allI impI)
    fix i j assume "i < length scores" "scores ! i = ?lo" "j < length scores"
    moreover from this have "scores ! i \<le> scores ! j" by simp
    ultimately show "?p ! j \<le> ?p ! i" using mono by blast
  qed
  with mono show ?thesis
    using predict_probability_column [OF assms(1,2)] calibrated_column [OF assms(3)]
    by (intro exI [of _ ?p]) (simp add: comp_def)
qed

theorem fraud_probability_antitone_in_raw_score_witness:
  "\<exists>tbl self'. predict example_library (init three_row_batch) = Inr (tbl, self') \<and>
     raw_scores example_library (init three_row_batch) = Inr [- 1 / 10, - 1 / 5, 1 / 20] \<and>
     Min (set [- 1 / 10, - 1 / 5, 1 / 20 :: real]) \<noteq> Max (set [- 1 / 10, - 1 / 5, 1 / 20]) \<and>
     (\<exists>p. getitem tbl ''FraudProbability'' = Inr (map (\<lambda>x. Num (Fin x)) p) \<and>
          length p = 3 \<and> p ! 0 \<le> p ! 1 \<and> p ! 2 \<le> p ! 0)"
proof -
  from three_row_run obtain tbl self' where
    run: "predict example_library (init three_row_batch) = Inr (tbl, self')"
    by blast
  from fraud_probability_antitone_in_raw_score [OF run three_row_scores three_row_scores_differ]
  obtain p where p: "getitem tbl ''FraudProbability'' = Inr (map (\<lambda>x. Num (Fin x)) p)"
    "length p = length [- 1 / 10, - 1 / 5, 1 / 20 :: real]"
    "\<forall>i<length [- 1 / 10, - 1 / 5, 1 / 20 :: real]. \<forall>j<length [- 1 / 10, - 1 / 5, 1 / 20 :: real].
       [- 1 / 10, - 1 / 5, 1 / 20 :: real] ! i \<le> [- 1 / 10, - 1 / 5, 1 / 20] ! j \<longrightarrow> p ! j \<le> p ! i"
    by blast
  from p(3) have "p ! 0 \<le> p ! 1" "p ! 2 \<le> p ! 0"
    by (simp_all add: nth_Cons')
  with p(1,2) run three_row_scores three_row_scores_differ show ?thesis
    by auto
qed

text \<open>
  C2 as stated fails: the \<^verbatim>\<open>AnomalyScore\<close> column holds the outlier decisions. On
  \<open>three_row_batch\<close> the first row holds the minimum of that column, \<open>-1\<close>, and its
  \<^verbatim>\<open>FraudProbability\<close> \<open>3/5\<close> is below the second row's, 1.
\<close>

theorem fraud_probability_not_antitone_in_anomaly_score:
  "column_of (predict example_library (init three_row_batch)) ''AnomalyScore''
     = Inr [Num (Fin (- 1)), Num (Fin (- 1)), Num (Fin 1)] \<and>
   column_of (predict example_library (init three_row_batch)) ''FraudProbability''
     = Inr [Num (Fin (3 / 5)), Num (Fin 1), Num (Fin 0)]"
  by code_simp

text \<open>
  C3: on a batch whose raw scores are all equal the formula divides zero by zero. On
  \<open>twin_batch\<close>, two transactions with the same feature values and so the same raw
  score, the \<^verbatim>\<open>FraudProbability\<close> of both rows is \<open>NaN\<close>: not 1 minus a normalised
  score, and not a value between 0 and 1.
\<close>

theorem equal_scores_probability_outside_unit_interval:
  "raw_scores example_library (init twin_batch) = Inr [2 / 25, 2 / 25] \<and>
   column_of (predict example_library (init twin_batch)) ''FraudProbability''
     = Inr [Num NaN, Num NaN] \<and>
   map_sum id (map in_unit_interval)
     (column_of (predict example_library (init twin_batch)) ''FraudProbability'')
     = Inr [False, False]"
  by code_simp

text \<open>
  C4: on a batch of one row \<open>predict\<close> divides zero by zero: the row's
  \<^verbatim>\<open>FraudProbability\<close> is \<open>NaN\<close>, no fallback value.
\<close>

theorem single_row_batch_probability_nan:
  "raw_scores example_library (init single_row_batch) = Inr [2 / 25] \<and>
   column_of (predict example_library (init single_row_batch)) ''FraudProbability''
     = Inr [Num NaN]"
  by code_simp

text \<open>The same on every batch whose raw scores are all equal.\<close>

lemma constant_scores_give_nan:
  assumes "predict lib self = Inr (tbl, self')"
    and "raw_scores lib self = Inr scores"
    and "Min (set scores) = Max (set scores)"
  shows "getitem tbl ''FraudProbability'' = Inr (replicate (nrows tbl) (Num NaN))"
proof -
  have "s \<in> set scores \<Longrightarrow> s = Min (set scores)" for s
  proof -
    assume "s \<in> set scores"
    then have "Min (set scores) \<le> s" "s \<le> Max (set scores)" by simp_all
    with assms(3) show ?thesis by linarith
  qed
  then have "map (\<lambda>s. Num (np_rsub 1 (np_div (s - Min (set scores))
                                        (Max (set scores) - Min (set scores))))) scores
             = replicate (length scores) (Num NaN)"
    using assms(3) by (auto simp: np_div_def map_replicate_const [symmetric] intro!: map_cong)
  with predict_probability_column [OF assms(1,2)] show ?thesis by simp
qed

section \<open>Ranking the contributions\<close>

lemma set_argsort: "set (argsort lib a) = {0..<length a}"
  by (simp add: argsort_def)

lemma distinct_argsort: "distinct (argsort lib a)"
  by (simp add: argsort_def)

lemma length_argsort: "length (argsort lib a) = length a"
  by (simp add: argsort_def)

lemma sorted_argsort: "sorted (map (\<lambda>i. a ! i) (argsort lib a))"
  by (simp add: argsort_def)

lemma length_top_indices: "length (top_indices lib v n) = min n (length v)"
  by (simp add: top_indices_def length_argsort min.commute)

text \<open>
  Sorting, by a key and stably, indices that are listed in the order of their ranks
  orders them by key and, among equal keys, by rank.
\<close>

lemma insort_key_by_rank:
  fixes f :: "nat \<Rightarrow> real" and g :: "nat \<Rightarrow> nat"
  assumes "sorted_wrt (\<lambda>i j. f i < f j \<or> (f i = f j \<and> g i \<le> g j)) ys"
    and "\<forall>y\<in>set ys. g x \<le> g y"
  shows "sorted_wrt (\<lambda>i j. f i < f j \<or> (f i = f j \<and> g i \<le> g j)) (insort_key f x ys)"
  using assms
proof (induction ys)
  case Nil
  then show ?case by simp
next
  case (Cons y ys)
  show ?case
  proof (cases "f x \<le> f y")
    case True
    have "f x < f z \<or> (f x = f z \<and> g x \<le> g z)" if "z \<in> set (y # ys)" for z
    proof -
      have "f y \<le> f z" using that Cons.prems(1) by auto
      moreover have "g x \<le> g z" using that Cons.prems(2) by auto
      ultimately show ?thesis using True by linarith
    qed
    with True Cons.prems(1) show ?thesis by simp
  next
    case False
    have "sorted_wrt (\<lambda>i j. f i < f j \<or> (f i = f j \<and> g i \<le> g j)) (insort_key f x ys)"
      using Cons by simp
    moreover have "f y < f z \<or> (f y = f z \<and> g y \<le> g z)" if "z \<in> set (insort_key f x ys)" for z
      using that False Cons.prems(1) by (auto simp: set_insort_key)
    ultimately show ?thesis using False by simp
  qed
qed

lemma sort_key_by_rank:
  fixes f :: "nat \<Rightarrow> real" and g :: "nat \<Rightarrow> nat"
  assumes "sorted (map g xs)"
  shows "sorted_wrt (\<lambda>i j. f i < f j \<or> (f i = f j \<and> g i \<le> g j)) (sort_key f xs)"
  using assms
proof (induction xs)
  case Nil
  then show ?case by simp
next
  case (Cons x xs)
  then show ?case
    by (simp add: insort_key_by_rank)
qed

lemma argsort_by_rank:
  "sorted_wrt (\<lambda>i j. a ! i < a ! j \<or> (a ! i = a ! j \<and> tie_order lib a i \<le> tie_order lib a j))
     (argsort lib a)"
  unfolding argsort_def by (rule sort_key_by_rank) simp

text \<open>
  C6 (as the code has it): the top-\<open>n\<close> list is the first \<open>n\<close> entries of a ranking of all
  features that lists every feature once, in descending order of absolute contribution.
  The order of two features of equal absolute contribution is the reverse of the order
  in which the library's sort leaves them; the code does not fix it.
\<close>

theorem top_indices_ranking:
  "top_indices lib v n = take n (top_indices lib v (length v)) \<and>
   set (top_indices lib v (length v)) = {0..<length v} \<and>
   distinct (top_indices lib v (length v)) \<and>
   sorted_wrt (at_least_as_large v) (top_indices lib v (length v)) \<and>
   sorted_wrt (ranked_before lib v) (top_indices lib v (length v))"
proof -
  have full: "top_indices lib v (length v) = rev (argsort lib (map abs v))"
    by (simp add: top_indices_def length_argsort)
  have "sorted_wrt (\<lambda>i j. ranked_before lib v j i) (argsort lib (map abs v))"
  proof (rule sorted_wrt_mono_rel [OF _ argsort_by_rank])
    fix i j
    assume "i \<in> set (argsort lib (map abs v))" "j \<in> set (argsort lib (map abs v))"
    then have "i < length v" "j < length v"
      by (simp_all add: set_argsort)
    moreover assume "map abs v ! i < map abs v ! j
      \<or> (map abs v ! i = map abs v ! j
          \<and> tie_order lib (map abs v) i \<le> tie_order lib (map abs v) j)"
    ultimately show "ranked_before lib v j i"
      by (auto simp: ranked_before_def)
  qed
  then have ranked: "sorted_wrt (ranked_before lib v) (top_indices lib v (length v))"
    by (simp add: full sorted_wrt_rev)
  then have "sorted_wrt (at_least_as_large v) (top_indices lib v (length v))"
    by (rule sorted_wrt_mono_rel [rotated]) (auto simp: ranked_before_def at_least_as_large_def)
  with ranked show ?thesis
    by (simp add: full set_argsort distinct_argsort) (simp add: top_indices_def)
qed

text \<open>
  C6 as stated fails: on a row with two nonzero contributions and a sort that leaves
  equal entries in index order, the third feature listed is the last of the features
  with contribution zero, feature 11, where the stable descending sort of the
  specification lists the first of them, feature 1.
\<close>

theorem top_indices_ties_not_in_feature_order:
  "top_indices example_library [- 3 / 10, 0, 0, 0, 0, 0, 0, 0, 0, - 1 / 5, 0, 0] 3 = [0, 9, 11] \<and>
   spec_top_n [- 3 / 10, 0, 0, 0, 0, 0, 0, 0, 0, - 1 / 5, 0, 0] 3 = [0, 9, 1]"
  by code_simp

text \<open>
  The order of tied features follows the library's sort: with equal entries left in
  index order the code lists them in descending feature order, with equal entries left in
  descending index order it lists them in ascending feature order.
\<close>

lemma tie_order_decides_ties:
  "top_indices example_library [1 / 2, 1 / 2, 1 / 10, 1 / 5, 0, 0, 0, 0, 0, 0, 0, 0] 3 = [1, 0, 3] \<and>
   top_indices descending_ties_library [1 / 2, 1 / 2, 1 / 10, 1 / 5, 0, 0, 0, 0, 0, 0, 0, 0] 3
     = [0, 1, 3] \<and>
   top_indices descending_ties_library [- 3 / 10, 0, 0, 0, 0, 0, 0, 0, 0, - 1 / 5, 0, 0] 3
     = [0, 9, 1]"
  by code_simp

section \<open>The narrative\<close>

lemma map_err_length: "map_err f xs = Inr ys \<Longrightarrow> length ys = length xs"
  by (induction xs arbitrary: ys) (auto simp: bind_err_Inr)

lemma map_err_nth:
  "map_err f xs = Inr ys \<Longrightarrow> i < length xs \<Longrightarrow> f (xs ! i) = Inr (ys ! i)"
proof (induction xs arbitrary: ys i)
  case Nil
  then show ?case by simp
next
  case (Cons x xs)
  then show ?case
    by (cases i) (auto simp: bind_err_Inr)
qed

text \<open>
  Every explanation that \<open>generate_explanations\<close> returns is the text around the bullets
  of one row of its argument.
\<close>

lemma generate_explanations_rows:
  assumes "generate_explanations lib self X top_n = Inr explanations"
  shows "length explanations = length X \<and>
         (\<exists>m shap_values. model self = Some m \<and> shap_explainer lib m X = Inr shap_values \<and>
            (\<forall>i<length X. \<exists>bullets. row_bullets lib self shap_values top_n i = Inr bullets \<and>
                                    explanations ! i = detailed_text bullets))"
proof -
  from assms obtain m shap_values where
    m: "model self = Some m" and sv: "shap_explainer lib m X = Inr shap_values" and
    me: "map_err (\<lambda>i. bind_err (row_bullets lib self shap_values top_n i)
                        (\<lambda>bullets. Inr (detailed_text bullets))) [0..<length X]
         = Inr explanations"
    by (auto simp: generate_explanations_def bind_err_Inr split: option.splits)
  have "\<exists>bullets. row_bullets lib self shap_values top_n i = Inr bullets \<and>
                  explanations ! i = detailed_text bullets" if "i < length X" for i
    using map_err_nth [OF me, of i] that by (auto simp: bind_err_Inr)
  with m sv map_err_length [OF me] show ?thesis
    by auto
qed

text \<open>
  C7 (as the code has it): the number of bullets of a row's narrative is the minimum of
  \<open>top_n\<close> and the number of features in the row's contribution vector (3 with the
  default \<open>top_n\<close> and the twelve features), whether the contributions are zero or not.
\<close>

theorem bullet_count:
  assumes "row_bullets lib self shap_values top_n i = Inr bullets"
  shows "length bullets = min top_n (length (shap_values ! i))"
  using assms
  by (auto simp: row_bullets_def Let_def bind_err_Inr length_top_indices
           split: if_splits dest: map_err_length)

lemma example_bullets_returned:
  "isl (row_bullets example_library example_state [[- 3 / 10, 0, 0, 0, 0, 0, 0, 0, 0, - 1 / 5, 0, 0]] 3 0) = False"
  by code_simp

theorem bullet_count_witness:
  "\<exists>bullets. row_bullets example_library example_state [[- 3 / 10, 0, 0, 0, 0, 0, 0, 0, 0, - 1 / 5, 0, 0]] 3 0
               = Inr bullets \<and>
             length bullets = min 3 (length ([[- 3 / 10, 0, 0, 0, 0, 0, 0, 0, 0, - 1 / 5, 0, 0 :: real]] ! 0))"
proof -
  from example_bullets_returned obtain bullets where
    b: "row_bullets example_library example_state [[- 3 / 10, 0, 0, 0, 0, 0, 0, 0, 0, - 1 / 5, 0, 0]] 3 0 = Inr bullets"
    by (cases "row_bullets example_library example_state [[- 3 / 10, 0, 0, 0, 0, 0, 0, 0, 0, - 1 / 5, 0, 0]] 3 0") auto
  from bullet_count [OF b] b show ?thesis
    by blast
qed

text \<open>
  C7 as stated fails: a row with two nonzero contributions gets three bullets, not
  \<open>min 3 2 = 2\<close>.
\<close>

theorem three_bullets_for_two_nonzero_contributions:
  "map_sum id length
     (row_bullets example_library example_state [[- 3 / 10, 0, 0, 0, 0, 0, 0, 0, 0, - 1 / 5, 0, 0]] 3 0) = Inr 3 \<and>
   nonzero_contributions [- 3 / 10, 0, 0, 0, 0, 0, 0, 0, 0, - 1 / 5, 0, 0] = 2"
  by code_simp

text \<open>\<open>example_state\<close> is the detector that \<open>preprocess\<close> leaves on \<open>example_batch\<close>.\<close>

lemma example_state_reached:
  "map_sum id snd (preprocess example_library (init example_batch))
     = Inr (example_state\<lparr>model := None\<rparr>)"
  by code_simp

text \<open>
  C5: the severity qualifiers of a flagged row's bullets are computed from
  \<^verbatim>\<open>self.X_raw.iloc[i]\<close>, where \<open>i\<close> is the row's position among the flagged rows, not
  its position in the batch. On \<open>example_batch\<close> the only flagged row is the second one,
  with amount 200000 and balance 500; its narrative carries the qualifiers of the first
  row's amount 20000 and balance 8000, \<open>moderate\<close> and \<open>sufficient\<close>, where the
  classifiers on the row's own values give \<open>very high\<close> and \<open>very low\<close>.
\<close>

theorem explanation_uses_another_rows_values:
  "column_of (predict example_library (init example_batch)) ''IsFraud''
     = Inr [Num (Fin 0), Num (Fin 1)] \<and>
   column_of (predict example_library (init example_batch)) ''TransactionAmount''
     = Inr [Num (Fin 20000), Num (Fin 200000)] \<and>
   column_of (predict example_library (init example_batch)) ''AccountBalance''
     = Inr [Num (Fin 8000), Num (Fin 500)] \<and>
   column_of (predict example_library (init example_batch)) ''FraudExplanation''
     = Inr [Str [],
            Str (detailed_text
              [''<li style='color:#e63946'><b>Transaction amount was high (moderate)</b> ''
                 @ arrow @ '' reduced fraud risk.</li>'',
               ''<li style='color:#e63946'><b>Account balance was low (sufficient)</b> ''
                 @ arrow @ '' reduced fraud risk.</li>'',
               ''<li style='color:#e63946'><b>Transaction took unusually long</b> ''
                 @ arrow @ '' reduced fraud risk.</li>''])] \<and>
   flag_TransactionAmount (Fin 200000) = ''very high'' \<and>
   flag_AccountBalance (Fin 500) = ''very low''"
  by code_simp

section \<open>Missing columns\<close>

lemma getitem_missing: "map_of (cols d) c = None \<Longrightarrow> getitem d c = Inl (KeyError [c])"
  by (simp add: getitem_def)







text \<open>Which error a failing step raises, on a well-formed table and length-preserving libraries.\<close>

lemma list_all_update:
  "list_all P al \<Longrightarrow> P (k, v) \<Longrightarrow> list_all P (AList.update k v al)"
  by (induction al) auto


lemma well_formed_setitem: "well_formed d \<Longrightarrow> setitem d c s = Inr d' \<Longrightarrow> well_formed d'"
  by (auto simp: well_formed_def setitem_Inr intro: list_all_update)




lemma well_formed_encode_categories:
  "encode_categories lib cs d = Inr d' \<Longrightarrow> well_formed d \<Longrightarrow> well_formed d'"
proof (induction cs arbitrary: d)
  case Nil
  then show ?case by simp
next
  case (Cons a cs)
  from Cons.prems(1) obtain s d1 where
    s: "setitem d a (map (\<lambda>k. Num (Fin (real_of_int k))) (cat_codes lib s)) = Inr d1" and
    r: "encode_categories lib cs d1 = Inr d'"
    by (auto simp: bind_err_Inr)
  from Cons.IH [OF r well_formed_setitem [OF Cons.prems(2) s]] show ?case .
qed







text \<open>When the date parser fails first, the error is the parser's.\<close>

lemma failing_dates_error:
  "predict failing_dates_library (init batch_without_balance)
     = Inl (LibraryError ''Unknown datetime string format'')"
  by code_simp



end
